theory Spec2Isabelle
  imports Complex_Main "HOL-Library.Sublist"
begin

section \<open>AI-Fitness-Agent: the deterministic tools of \<^verbatim>\<open>src/tools/fitness_tools.py\<close>\<close>

text \<open>
  The module has four tools that the claims are about: \<^verbatim>\<open>calculate_diet_plan\<close>,
  \<^verbatim>\<open>generate_workout_schedule\<close>, \<^verbatim>\<open>find_youtube_workout_video\<close> and
  \<^verbatim>\<open>get_calories_for_food\<close>.

  Conventions of the embedding.
  \<^item> Python's \<^verbatim>\<open>float\<close> arguments \<^verbatim>\<open>weight_kg\<close> and \<^verbatim>\<open>height_cm\<close> and every value
    computed from them are exact rationals (\<^typ>\<open>rat\<close>): the decimal literals of the source
    are the fractions they denote (\<^verbatim>\<open>6.25\<close> is \<open>25/4\<close>, \<^verbatim>\<open>1.55\<close> is \<open>31/20\<close>), and the
    arithmetic does not round. The binary64 rounding of the interpreter is not modelled.
    \<^verbatim>\<open>age\<close> is Python's unbounded \<^verbatim>\<open>int\<close>, here \<^typ>\<open>int\<close>.
  \<^item> A \<^verbatim>\<open>str\<close> is a \<^typ>\<open>string\<close> (its UTF-8 bytes). A \<^verbatim>\<open>dict\<close> literal is an association
    list in the order of the source, read with \<^const>\<open>map_of\<close>.
  \<^item> The search service is outside the repository. It is a parameter of the two lookup
    tools: a function from the query to either the text of the exception it raised or the
    list of result dictionaries it returned.
\<close>

subsection \<open>Python primitives\<close>

text \<open>\<^verbatim>\<open>str.lower()\<close>. The letters \<^verbatim>\<open>A\<close> to \<^verbatim>\<open>Z\<close> (bytes 65 to 90) move to \<^verbatim>\<open>a\<close> to \<^verbatim>\<open>z\<close>;
  every other byte stays. The source compares the lowered string only with the ASCII keys
  \<^verbatim>\<open>male\<close>, \<^verbatim>\<open>sedentary\<close>, \<^verbatim>\<open>light\<close>, \<^verbatim>\<open>moderate\<close> and \<^verbatim>\<open>active\<close>; the one code point beyond
  ASCII that Python lowers to an ASCII letter is the Kelvin sign (to \<^verbatim>\<open>k\<close>), and no key
  has a \<^verbatim>\<open>k\<close>, so these comparisons come out the same.\<close>

definition lower_char :: "char \<Rightarrow> char" where
  "lower_char c =
     (let n = (of_char c :: nat)
      in if 65 \<le> n \<and> n \<le> 90 then char_of (n + 32) else c)"

definition lower :: "string \<Rightarrow> string" where
  "lower s = map lower_char s"

text \<open>\<^verbatim>\<open>round(x)\<close> with one argument: the nearest integer, a tie going to the even one.\<close>

definition py_round :: "rat \<Rightarrow> int" where
  "py_round x =
     (let f = \<lfloor>x\<rfloor>; d = x - of_int f
      in if d < 1 / 2 then f
         else if 1 / 2 < d then f + 1
         else if even f then f else f + 1)"

text \<open>\<^verbatim>\<open>d.get(k, default)\<close> on a dictionary.\<close>

definition dict_get :: "('k \<times> 'v) list \<Rightarrow> 'k \<Rightarrow> 'v \<Rightarrow> 'v" where
  "dict_get d k dflt = (case map_of d k of Some v \<Rightarrow> v | None \<Rightarrow> dflt)"

text \<open>\<^verbatim>\<open>p in s\<close> on strings: \<open>p\<close> occurs in \<open>s\<close> as a contiguous run.\<close>

fun str_in :: "string \<Rightarrow> string \<Rightarrow> bool" where
  "str_in p [] = (p = [])"
| "str_in p (c # cs) = (prefix p (c # cs) \<or> str_in p cs)"

subsection \<open>\<^verbatim>\<open>calculate_diet_plan\<close> (lines 8 to 47)\<close>

record diet_plan =
  daily_calories :: int
  macros :: "(string \<times> int) list"
  weekly_meal_plan :: "(string \<times> string) list list"

text \<open>Lines 15 to 18: the local \<^verbatim>\<open>bmr\<close>.\<close>

definition bmr :: "rat \<Rightarrow> rat \<Rightarrow> int \<Rightarrow> string \<Rightarrow> rat" where
  "bmr weight_kg height_cm age gender =
     (if lower gender = ''male''
      then 10 * weight_kg + 25 / 4 * height_cm - of_int (5 * age) + 5
      else 10 * weight_kg + 25 / 4 * height_cm - of_int (5 * age) - 161)"

text \<open>Line 20: the table \<^verbatim>\<open>activity_multipliers\<close>.\<close>

definition activity_multipliers :: "(string \<times> rat) list" where
  "activity_multipliers =
     [(''sedentary'', 6 / 5), (''light'', 11 / 8), (''moderate'', 31 / 20), (''active'', 69 / 40)]"

text \<open>Line 21: the local \<^verbatim>\<open>calories\<close> before the goal branch.\<close>

definition activity_calories :: "rat \<Rightarrow> rat \<Rightarrow> int \<Rightarrow> string \<Rightarrow> string \<Rightarrow> rat" where
  "activity_calories weight_kg height_cm age gender activity_level =
     bmr weight_kg height_cm age gender
       * dict_get activity_multipliers (lower activity_level) (31 / 20)"

text \<open>Lines 23 to 30: the goal branch. It takes \<^verbatim>\<open>calories\<close> as line 21 left it and gives
  the pair of \<^verbatim>\<open>calories\<close> and \<^verbatim>\<open>macros\<close> as line 30 leaves them.\<close>

definition goal_branch :: "string \<Rightarrow> rat \<Rightarrow> rat \<Rightarrow> rat \<times> (string \<times> rat) list" where
  "goal_branch goal weight_kg calories =
     (if goal = ''weight_loss'' then
        (let calories = calories - 400
         in (calories,
             [(''protein_g'', 9 / 5 * weight_kg), (''carbs_g'', 150),
              (''fat_g'', (calories * (1 / 4)) / 9)]))
      else if goal = ''muscle_gain'' then
        (let calories = calories + 400
         in (calories,
             [(''protein_g'', 2 * weight_kg), (''carbs_g'', (calories * (2 / 5)) / 4),
              (''fat_g'', (calories * (3 / 10)) / 9)]))
      else
        (calories,
         [(''protein_g'', 9 / 5 * weight_kg), (''carbs_g'', (calories * (9 / 20)) / 4),
          (''fat_g'', (calories * (1 / 4)) / 9)]))"

text \<open>Lines 33 to 41: the fixed table \<^verbatim>\<open>meal_plan_by_day\<close>.\<close>

definition meal_plan_by_day :: "(string \<times> string) list list" where
  "meal_plan_by_day =
     [[(''Day'', ''Monday''), (''Breakfast'', ''Oatmeal & Berries''),
       (''Lunch'', ''Grilled Chicken Salad''), (''Dinner'', ''Salmon & Veggies'')],
      [(''Day'', ''Tuesday''), (''Breakfast'', ''Scrambled Eggs''),
       (''Lunch'', ''Quinoa Bowl''), (''Dinner'', ''Lentil Soup'')],
      [(''Day'', ''Wednesday''), (''Breakfast'', ''Greek Yogurt & Nuts''),
       (''Lunch'', ''Leftover Salmon''), (''Dinner'', ''Turkey Stir-fry'')],
      [(''Day'', ''Thursday''), (''Breakfast'', ''Protein Smoothie''),
       (''Lunch'', ''Leftover Stir-fry''), (''Dinner'', ''Chicken Fajitas'')],
      [(''Day'', ''Friday''), (''Breakfast'', ''Oatmeal & Berries''),
       (''Lunch'', ''Tuna Salad Sandwich''), (''Dinner'', ''Lean Steak & Asparagus'')],
      [(''Day'', ''Saturday''), (''Breakfast'', ''Pancakes (Protein)''),
       (''Lunch'', ''Leftover Steak''), (''Dinner'', ''Healthy Pizza'')],
      [(''Day'', ''Sunday''), (''Breakfast'', ''Scrambled Eggs''),
       (''Lunch'', ''Large Salad''), (''Dinner'', ''Roast Chicken'')]]"

text \<open>The whole function, with the returned dictionary of lines 43 to 47 as a record.\<close>

definition calculate_diet_plan ::
  "string \<Rightarrow> rat \<Rightarrow> rat \<Rightarrow> int \<Rightarrow> string \<Rightarrow> string \<Rightarrow> diet_plan" where
  "calculate_diet_plan goal weight_kg height_cm age gender activity_level =
     (let calories = activity_calories weight_kg height_cm age gender activity_level;
          (calories, macros) = goal_branch goal weight_kg calories
      in \<lparr>daily_calories = py_round calories,
          macros = map (\<lambda>(k, v). (k, py_round v)) macros,
          weekly_meal_plan = meal_plan_by_day\<rparr>)"

text \<open>The locals \<^verbatim>\<open>calories\<close> and \<^verbatim>\<open>macros\<close> as they stand at line 43, before rounding.\<close>

definition adjusted_calories ::
  "string \<Rightarrow> rat \<Rightarrow> rat \<Rightarrow> int \<Rightarrow> string \<Rightarrow> string \<Rightarrow> rat" where
  "adjusted_calories goal weight_kg height_cm age gender activity_level =
     fst (goal_branch goal weight_kg
            (activity_calories weight_kg height_cm age gender activity_level))"

definition unrounded_macros ::
  "string \<Rightarrow> rat \<Rightarrow> rat \<Rightarrow> int \<Rightarrow> string \<Rightarrow> string \<Rightarrow> (string \<times> rat) list" where
  "unrounded_macros goal weight_kg height_cm age gender activity_level =
     snd (goal_branch goal weight_kg
            (activity_calories weight_kg height_cm age gender activity_level))"

subsection \<open>\<^verbatim>\<open>generate_workout_schedule\<close> (lines 50 to 71)\<close>

text \<open>The list literal of lines 53 to 61.\<close>

definition muscle_gain_schedule :: "(string \<times> string) list list" where
  "muscle_gain_schedule =
     [[(''Day'', ''Monday''), (''Workout Type'', ''Upper Body Strength''),
       (''Example Exercises'', ''3x5 Bench Press, 3x8 Rows'')],
      [(''Day'', ''Tuesday''), (''Workout Type'', ''Lower Body Strength''),
       (''Example Exercises'', ''3x5 Squats, 1x5 Deadlifts'')],
      [(''Day'', ''Wednesday''), (''Workout Type'', ''Active Recovery''),
       (''Example Exercises'', ''30 min walk or stretching'')],
      [(''Day'', ''Thursday''), (''Workout Type'', ''Upper Body Hypertrophy''),
       (''Example Exercises'', ''4x12 Incline Press, 4x15 Lat Pulldowns'')],
      [(''Day'', ''Friday''), (''Workout Type'', ''Lower Body Hypertrophy''),
       (''Example Exercises'', ''4x12 Lunges, 4x15 Leg Curls'')],
      [(''Day'', ''Saturday''), (''Workout Type'', ''Full Body / Cardio''),
       (''Example Exercises'', ''30 mins moderate cardio, planks'')],
      [(''Day'', ''Sunday''), (''Workout Type'', ''Rest''),
       (''Example Exercises'', ''Full rest day'')]]"

text \<open>The list literal of lines 63 to 71.\<close>

definition general_schedule :: "(string \<times> string) list list" where
  "general_schedule =
     [[(''Day'', ''Monday''), (''Workout Type'', ''Full Body Strength''),
       (''Example Exercises'', ''3x10 Goblet Squats, 3x12 Push-ups'')],
      [(''Day'', ''Tuesday''), (''Workout Type'', ''HIIT Cardio''),
       (''Example Exercises'', ''20 mins: 30s sprint, 60s rest'')],
      [(''Day'', ''Wednesday''), (''Workout Type'', ''Active Recovery''),
       (''Example Exercises'', ''30 min walk'')],
      [(''Day'', ''Thursday''), (''Workout Type'', ''Full Body Strength''),
       (''Example Exercises'', ''3x10 Overhead Press, 3x12 Lunges'')],
      [(''Day'', ''Friday''), (''Workout Type'', ''Steady-State Cardio''),
       (''Example Exercises'', ''45 mins jogging or cycling'')],
      [(''Day'', ''Saturday''), (''Workout Type'', ''Core & Flexibility''),
       (''Example Exercises'', ''3 sets of leg raises, planks'')],
      [(''Day'', ''Sunday''), (''Workout Type'', ''Rest''),
       (''Example Exercises'', ''Full rest day'')]]"

definition generate_workout_schedule :: "string \<Rightarrow> string \<Rightarrow> (string \<times> string) list list" where
  "generate_workout_schedule goal experience_level =
     (if goal = ''muscle_gain'' then muscle_gain_schedule else general_schedule)"

subsection \<open>The lookup tools (lines 75 to 121)\<close>

text \<open>An exception is the text that \<^verbatim>\<open>str(e)\<close> gives. A search result is a dictionary from
  field names to strings. The search service answers a query with an exception or with a
  list of results.\<close>

datatype exn = Exception string

fun exn_str :: "exn \<Rightarrow> string" where
  "exn_str (Exception msg) = msg"

type_synonym search_result = "(string \<times> string) list"

type_synonym search_service = "string \<Rightarrow> exn + search_result list"

text \<open>Line 93: the test of a URL.\<close>

definition is_youtube_url :: "string \<Rightarrow> bool" where
  "is_youtube_url url_to_check =
     (str_in ''youtube.com/watch'' url_to_check \<or> str_in ''youtu.be/'' url_to_check)"

text \<open>Lines 81 and 110: the queries sent to the search service.\<close>

definition video_query :: "string \<Rightarrow> string" where
  "video_query workout_type =
     [CHR 0x27] @ workout_type @ [CHR 0x27] @ '' workout video youtube.com''"

definition calorie_query :: "string \<Rightarrow> string" where
  "calorie_query food_item = ''calories in '' @ food_item"

text \<open>Lines 88 to 96: the \<^verbatim>\<open>for\<close> loop, which returns from inside at the first match.
  \<open>None\<close> is the loop running to its end.\<close>

fun scan_results :: "string \<Rightarrow> search_result list \<Rightarrow> string option" where
  "scan_results workout_type [] = None"
| "scan_results workout_type (res_dict # rest) =
     (let url_to_check = dict_get res_dict ''url'' '''';
          title = dict_get res_dict ''title'' (workout_type @ '' Workout Video'')
      in if is_youtube_url url_to_check
         then Some (''['' @ title @ '']('' @ url_to_check @ '')'')
         else scan_results workout_type rest)"

text \<open>Lines 80 to 98: the body of the \<^verbatim>\<open>try\<close>. An exception of the search leaves the body.\<close>

definition find_youtube_workout_video_try :: "search_service \<Rightarrow> string \<Rightarrow> exn + string" where
  "find_youtube_workout_video_try tavily_search workout_type =
     (let query = video_query workout_type
      in case tavily_search query of
           Inl e \<Rightarrow> Inl e
         | Inr results \<Rightarrow>
             if results = [] then Inr ''Could not find any relevant search results for a video.''
             else (case scan_results workout_type results of
                     Some formatted_link \<Rightarrow> Inr formatted_link
                   | None \<Rightarrow> Inr ''Could not find a direct YouTube video link in search results.''))"

text \<open>Lines 79 to 100: the \<^verbatim>\<open>try\<close> with its \<^verbatim>\<open>except Exception\<close> handler.\<close>

definition find_youtube_workout_video :: "search_service \<Rightarrow> string \<Rightarrow> string" where
  "find_youtube_workout_video tavily_search workout_type =
     (case find_youtube_workout_video_try tavily_search workout_type of
        Inr s \<Rightarrow> s
      | Inl e \<Rightarrow> ''Could not find a video link due to an error: '' @ exn_str e)"

text \<open>Lines 109 to 119: the body of the \<^verbatim>\<open>try\<close> of \<^verbatim>\<open>get_calories_for_food\<close>. A string is
  true in a condition when it is not empty.\<close>

definition get_calories_for_food_try :: "search_service \<Rightarrow> string \<Rightarrow> exn + string" where
  "get_calories_for_food_try tavily_search food_item =
     (let query = calorie_query food_item
      in case tavily_search query of
           Inl e \<Rightarrow> Inl e
         | Inr results \<Rightarrow>
             (case results of
                [] \<Rightarrow> Inr ''Could not find calorie information.''
              | first # _ \<Rightarrow>
                  (case map_of first ''content'' of
                     Some content \<Rightarrow>
                       if content \<noteq> [] then Inr content
                       else Inr ''Could not find calorie information in the search results.''
                   | None \<Rightarrow> Inr ''Could not find calorie information in the search results.'')))"

definition get_calories_for_food :: "search_service \<Rightarrow> string \<Rightarrow> string" where
  "get_calories_for_food tavily_search food_item =
     (case get_calories_for_food_try tavily_search food_item of
        Inr s \<Rightarrow> s
      | Inl e \<Rightarrow> ''Could not find calorie information due to an error: '' @ exn_str e)"

section \<open>Properties\<close>

subsection \<open>Facts about the primitives\<close>


lemma py_round_nonneg: "0 \<le> x \<Longrightarrow> 0 \<le> py_round x"
  by (simp add: py_round_def Let_def)

lemma py_round_of_int: "py_round (of_int n) = n"
  by (simp add: py_round_def Let_def)

lemma lower_char_idem: "lower_char (lower_char c) = lower_char c"
  by (auto simp add: lower_char_def Let_def)

lemma lower_idem: "lower (lower s) = lower s"
  by (simp add: lower_def lower_char_idem)

text \<open>\<^const>\<open>str_in\<close> is the substring test: \<open>p\<close> is in \<open>s\<close> exactly when \<open>s\<close> splits
  around a copy of \<open>p\<close>.\<close>

lemma str_in_iff: "str_in p s \<longleftrightarrow> (\<exists>a b. s = a @ p @ b)"
proof (induction s)
  case Nil
  then show ?case by auto
next
  case (Cons c cs)
  show ?case
  proof
    assume "str_in p (c # cs)"
    then consider "prefix p (c # cs)" | "str_in p cs" by auto
    then show "\<exists>a b. c # cs = a @ p @ b"
    proof cases
      case 1
      then obtain b where "c # cs = p @ b" by (auto simp: prefix_def)
      then have "c # cs = [] @ p @ b" by simp
      then show ?thesis by blast
    next
      case 2
      with Cons.IH obtain a b where "cs = a @ p @ b" by auto
      then have "c # cs = (c # a) @ p @ b" by simp
      then show ?thesis by blast
    qed
  next
    assume "\<exists>a b. c # cs = a @ p @ b"
    then obtain a b where ab: "c # cs = a @ p @ b" by auto
    show "str_in p (c # cs)"
    proof (cases a)
      case Nil
      with ab have "prefix p (c # cs)" by (simp add: prefix_def)
      then show ?thesis by simp
    next
      case (Cons a0 as)
      with ab have "cs = as @ p @ b" by simp
      with Cons.IH have "str_in p cs" by blast
      then show ?thesis by simp
    qed
  qed
qed

subsection \<open>The goal branch, case by case\<close>


lemma goal_branch_muscle_gain:
  "goal_branch ''muscle_gain'' w c =
     (c + 400, [(''protein_g'', 2 * w), (''carbs_g'', ((c + 400) * (2 / 5)) / 4),
                (''fat_g'', ((c + 400) * (3 / 10)) / 9)])"
  by (simp add: goal_branch_def Let_def)

lemma goal_branch_other:
  "goal \<noteq> ''weight_loss'' \<Longrightarrow> goal \<noteq> ''muscle_gain'' \<Longrightarrow>
   goal_branch goal w c =
     (c, [(''protein_g'', 9 / 5 * w), (''carbs_g'', (c * (9 / 20)) / 4), (''fat_g'', (c * (1 / 4)) / 9)])"
  by (simp add: goal_branch_def)

lemma macros_rounded:
  "macros (calculate_diet_plan goal w h a g act)
     = map (\<lambda>(k, v). (k, py_round v)) (unrounded_macros goal w h a g act)"
  by (simp add: calculate_diet_plan_def unrounded_macros_def Let_def split: prod.splits)

lemma daily_calories_rounded:
  "daily_calories (calculate_diet_plan goal w h a g act) = py_round (adjusted_calories goal w h a g act)"
  by (simp add: calculate_diet_plan_def adjusted_calories_def Let_def split: prod.splits)

lemma meal_plan_fixed:
  "weekly_meal_plan (calculate_diet_plan goal w h a g act) = meal_plan_by_day"
  by (simp add: calculate_diet_plan_def Let_def split: prod.splits)

lemma maintenance_calories:
  "daily_calories (calculate_diet_plan ''maintenance'' w h a g act)
     = py_round (activity_calories w h a g act)"
  by (simp add: daily_calories_rounded adjusted_calories_def goal_branch_other)

lemma muscle_gain_calories:
  "daily_calories (calculate_diet_plan ''muscle_gain'' w h a g act)
     = py_round (activity_calories w h a g act + 400)"
  by (simp add: daily_calories_rounded adjusted_calories_def goal_branch_muscle_gain)

text \<open>The activity factor, the plan as a function of the goal branch, and the macros
  before rounding.\<close>

lemma activity_factor:
  "dict_get activity_multipliers (lower act) (31 / 20)
     = (if lower act = ''sedentary'' then 6 / 5
        else if lower act = ''light'' then 11 / 8
        else if lower act = ''moderate'' then 31 / 20
        else if lower act = ''active'' then 69 / 40
        else 31 / 20)"
  by (simp add: dict_get_def activity_multipliers_def)

lemma plan_by_goal_branch:
  "goal_branch goal w = goal_branch goal' w \<Longrightarrow>
   activity_calories w h a g act = activity_calories w h a g' act' \<Longrightarrow>
   calculate_diet_plan goal w h a g act = calculate_diet_plan goal' w h a g' act'"
  by (simp add: calculate_diet_plan_def)

lemma goal_branch_unrecognized:
  "goal \<noteq> ''weight_loss'' \<Longrightarrow> goal \<noteq> ''muscle_gain'' \<Longrightarrow>
   goal_branch goal w = goal_branch ''maintenance'' w"
  by (rule ext) (simp add: goal_branch_other)

lemma unrounded_macros_cases:
  "unrounded_macros goal w h a g act =
     (if goal = ''weight_loss'' then
        [(''protein_g'', 9 / 5 * w), (''carbs_g'', 150),
         (''fat_g'', (adjusted_calories goal w h a g act * (1 / 4)) / 9)]
      else if goal = ''muscle_gain'' then
        [(''protein_g'', 2 * w), (''carbs_g'', (adjusted_calories goal w h a g act * (2 / 5)) / 4),
         (''fat_g'', (adjusted_calories goal w h a g act * (3 / 10)) / 9)]
      else
        [(''protein_g'', 9 / 5 * w), (''carbs_g'', (adjusted_calories goal w h a g act * (9 / 20)) / 4),
         (''fat_g'', (adjusted_calories goal w h a g act * (1 / 4)) / 9)])"
  by (simp add: unrounded_macros_def adjusted_calories_def goal_branch_def Let_def)

subsection \<open>The scan of the search results\<close>

lemma scan_results_none:
  "\<forall>r\<in>set results. \<not> is_youtube_url (dict_get r ''url'' []) \<Longrightarrow>
   scan_results wt results = None"
  by (induction results) (simp_all add: Let_def)

lemma scan_results_first:
  "\<forall>x\<in>set pre. \<not> is_youtube_url (dict_get x ''url'' []) \<Longrightarrow>
   is_youtube_url (dict_get r ''url'' []) \<Longrightarrow>
   scan_results wt (pre @ r # post)
     = Some (''['' @ dict_get r ''title'' (wt @ '' Workout Video'') @ '']('' @ dict_get r ''url'' [] @ '')'')"
  by (induction pre) (simp_all add: Let_def)

subsection \<open>Daily calories\<close>






subsection \<open>Macros\<close>




subsection \<open>The workout schedule and the seven days\<close>

text \<open>
  Claim C4: \<^verbatim>\<open>generate_workout_schedule\<close> returns the strength and hypertrophy template when
  \<^verbatim>\<open>goal\<close> is \<^verbatim>\<open>muscle_gain\<close> and the general template for every other goal string; the two
  templates differ, each has seven entries, and \<^verbatim>\<open>experience_level\<close> does not change the
  result.
\<close>

theorem schedule_selection:
  "generate_workout_schedule goal experience_level
     = (if goal = ''muscle_gain'' then muscle_gain_schedule else general_schedule)
   \<and> generate_workout_schedule goal experience_level = generate_workout_schedule goal other_level
   \<and> muscle_gain_schedule \<noteq> general_schedule
   \<and> length muscle_gain_schedule = 7 \<and> length general_schedule = 7
   \<and> map (\<lambda>r. map_of r ''Workout Type'') muscle_gain_schedule
       = map Some [''Upper Body Strength'', ''Lower Body Strength'', ''Active Recovery'',
                   ''Upper Body Hypertrophy'', ''Lower Body Hypertrophy'', ''Full Body / Cardio'',
                   ''Rest'']
   \<and> map (\<lambda>r. map_of r ''Workout Type'') general_schedule
       = map Some [''Full Body Strength'', ''HIIT Cardio'', ''Active Recovery'',
                   ''Full Body Strength'', ''Steady-State Cardio'', ''Core & Flexibility'',
                   ''Rest'']"
  by (simp add: generate_workout_schedule_def muscle_gain_schedule_def general_schedule_def)

theorem schedule_selection_witness:
  "generate_workout_schedule ''muscle_gain'' ''beginner'' = muscle_gain_schedule
   \<and> generate_workout_schedule ''muscle_gain'' ''advanced'' = muscle_gain_schedule
   \<and> generate_workout_schedule ''weight_loss'' ''beginner'' = general_schedule
   \<and> generate_workout_schedule ''maintenance'' ''intermediate'' = general_schedule
   \<and> generate_workout_schedule ''get shredded'' ''beginner'' = general_schedule"
  using schedule_selection [of "''muscle_gain''" "''beginner''"]
    schedule_selection [of "''muscle_gain''" "''advanced''"]
    schedule_selection [of "''weight_loss''" "''beginner''"]
    schedule_selection [of "''maintenance''" "''intermediate''"]
    schedule_selection [of "''get shredded''" "''beginner''"]
  by simp

text \<open>
  Claim C5: for every input, the \<^verbatim>\<open>weekly_meal_plan\<close> of \<^verbatim>\<open>calculate_diet_plan\<close> and the
  schedule of \<^verbatim>\<open>generate_workout_schedule\<close> have exactly seven records, and their
  \<^verbatim>\<open>Day\<close> fields read Monday to Sunday in this order.
\<close>

theorem seven_days_monday_to_sunday:
  "length (weekly_meal_plan (calculate_diet_plan goal w h a g act)) = 7
   \<and> map (\<lambda>r. map_of r ''Day'') (weekly_meal_plan (calculate_diet_plan goal w h a g act))
       = map Some [''Monday'', ''Tuesday'', ''Wednesday'', ''Thursday'', ''Friday'',
                   ''Saturday'', ''Sunday'']
   \<and> length (generate_workout_schedule goal' experience_level) = 7
   \<and> map (\<lambda>r. map_of r ''Day'') (generate_workout_schedule goal' experience_level)
       = map Some [''Monday'', ''Tuesday'', ''Wednesday'', ''Thursday'', ''Friday'',
                   ''Saturday'', ''Sunday'']"
  by (simp add: meal_plan_fixed meal_plan_by_day_def generate_workout_schedule_def
      muscle_gain_schedule_def general_schedule_def)

subsection \<open>The lookup tools\<close>

text \<open>
  Claim C6: \<^verbatim>\<open>find_youtube_workout_video\<close> returns the Markdown link \<^verbatim>\<open>[title](url)\<close> of the
  first result, in the order of the list, whose \<^verbatim>\<open>url\<close> contains \<^verbatim>\<open>youtube.com/watch\<close> or
  \<^verbatim>\<open>youtu.be/\<close>, whatever comes before or after it; the title is the result's \<^verbatim>\<open>title\<close>
  or, when that is absent, the workout type followed by \<^verbatim>\<open>Workout Video\<close>. It returns
  one sentinel string for an empty result list and another when no result matches. An
  exception of the search becomes the string \<^verbatim>\<open>Could not find a video link due to an
  error: ...\<close>. These cases cover every answer of the search service, so the tool always
  returns a string.
\<close>

theorem video_lookup_outcomes:
  "(tavily_search (video_query workout_type) = Inl e \<longrightarrow>
      find_youtube_workout_video tavily_search workout_type
        = ''Could not find a video link due to an error: '' @ exn_str e)
   \<and> (tavily_search (video_query workout_type) = Inr [] \<longrightarrow>
      find_youtube_workout_video tavily_search workout_type
        = ''Could not find any relevant search results for a video.'')
   \<and> (tavily_search (video_query workout_type) = Inr results \<longrightarrow> results \<noteq> [] \<longrightarrow>
      (\<forall>x\<in>set results. \<not> is_youtube_url (dict_get x ''url'' [])) \<longrightarrow>
      find_youtube_workout_video tavily_search workout_type
        = ''Could not find a direct YouTube video link in search results.'')
   \<and> (tavily_search (video_query workout_type) = Inr (pre @ r # post) \<longrightarrow>
      (\<forall>x\<in>set pre. \<not> is_youtube_url (dict_get x ''url'' [])) \<longrightarrow>
      is_youtube_url (dict_get r ''url'' []) \<longrightarrow>
      find_youtube_workout_video tavily_search workout_type
        = ''['' @ dict_get r ''title'' (workout_type @ '' Workout Video'')
            @ '']('' @ dict_get r ''url'' [] @ '')'')
   \<and> (is_youtube_url u \<longleftrightarrow>
        (\<exists>a b. u = a @ ''youtube.com/watch'' @ b) \<or> (\<exists>a b. u = a @ ''youtu.be/'' @ b))"
proof (intro conjI impI)
  assume "tavily_search (video_query workout_type) = Inl e"
  then show "find_youtube_workout_video tavily_search workout_type
        = ''Could not find a video link due to an error: '' @ exn_str e"
    by (simp add: find_youtube_workout_video_def find_youtube_workout_video_try_def)
next
  assume "tavily_search (video_query workout_type) = Inr []"
  then show "find_youtube_workout_video tavily_search workout_type
        = ''Could not find any relevant search results for a video.''"
    by (simp add: find_youtube_workout_video_def find_youtube_workout_video_try_def)
next
  assume a: "tavily_search (video_query workout_type) = Inr results" "results \<noteq> []"
    "\<forall>x\<in>set results. \<not> is_youtube_url (dict_get x ''url'' [])"
  from a(3) have "scan_results workout_type results = None" by (rule scan_results_none)
  with a(1,2) show "find_youtube_workout_video tavily_search workout_type
        = ''Could not find a direct YouTube video link in search results.''"
    by (simp add: find_youtube_workout_video_def find_youtube_workout_video_try_def)
next
  assume a: "tavily_search (video_query workout_type) = Inr (pre @ r # post)"
    "\<forall>x\<in>set pre. \<not> is_youtube_url (dict_get x ''url'' [])"
    "is_youtube_url (dict_get r ''url'' [])"
  from a(2,3) have "scan_results workout_type (pre @ r # post)
     = Some (''['' @ dict_get r ''title'' (workout_type @ '' Workout Video'')
               @ '']('' @ dict_get r ''url'' [] @ '')'')"
    by (rule scan_results_first)
  with a(1) show "find_youtube_workout_video tavily_search workout_type
        = ''['' @ dict_get r ''title'' (workout_type @ '' Workout Video'')
            @ '']('' @ dict_get r ''url'' [] @ '')''"
    by (simp add: find_youtube_workout_video_def find_youtube_workout_video_try_def)
next
  show "is_youtube_url u \<longleftrightarrow>
        (\<exists>a b. u = a @ ''youtube.com/watch'' @ b) \<or> (\<exists>a b. u = a @ ''youtu.be/'' @ b)"
    unfolding is_youtube_url_def str_in_iff by (rule refl)
qed

theorem video_lookup_outcomes_witness:
  "find_youtube_workout_video (\<lambda>q. Inl (Exception ''connection refused'')) ''HIIT Cardio''
     = ''Could not find a video link due to an error: connection refused''
   \<and> find_youtube_workout_video (\<lambda>q. Inr []) ''HIIT Cardio''
     = ''Could not find any relevant search results for a video.''
   \<and> find_youtube_workout_video
       (\<lambda>q. Inr [[(''url'', ''https://example.com/hiit'')], [(''content'', ''no url'')]])
       ''HIIT Cardio''
     = ''Could not find a direct YouTube video link in search results.''
   \<and> find_youtube_workout_video
       (\<lambda>q. Inr [[(''url'', ''https://example.com/hiit'')],
                  [(''url'', ''https://youtu.be/abc'')],
                  [(''title'', ''Later''), (''url'', ''https://www.youtube.com/watch?v=2'')]])
       ''HIIT Cardio''
     = ''[HIIT Cardio Workout Video](https://youtu.be/abc)''"
proof -
  have n1: "\<not> is_youtube_url (dict_get [(''url'', ''https://example.com/hiit'')] ''url'' [])"
    by code_simp
  have n2: "\<not> is_youtube_url (dict_get [(''content'', ''no url'')] ''url'' [])"
    by code_simp
  have y: "is_youtube_url (dict_get [(''url'', ''https://youtu.be/abc'')] ''url'' [])"
    by code_simp
  have t: "dict_get [(''url'', ''https://youtu.be/abc'')] ''title'' (''HIIT Cardio'' @ '' Workout Video'')
            = ''HIIT Cardio Workout Video''"
    "dict_get [(''url'', ''https://youtu.be/abc'')] ''url'' [] = ''https://youtu.be/abc''"
    by (simp_all add: dict_get_def)
  have a: "find_youtube_workout_video (\<lambda>q. Inl (Exception ''connection refused'')) ''HIIT Cardio''
     = ''Could not find a video link due to an error: connection refused''"
    using video_lookup_outcomes [of "\<lambda>q. Inl (Exception ''connection refused'')" "''HIIT Cardio''"
        "Exception ''connection refused''"]
    by simp
  have b: "find_youtube_workout_video (\<lambda>q. Inr []) ''HIIT Cardio''
     = ''Could not find any relevant search results for a video.''"
    using video_lookup_outcomes [of "\<lambda>q. Inr []" "''HIIT Cardio''"] by simp
  have c: "find_youtube_workout_video
       (\<lambda>q. Inr [[(''url'', ''https://example.com/hiit'')], [(''content'', ''no url'')]])
       ''HIIT Cardio''
     = ''Could not find a direct YouTube video link in search results.''"
    using video_lookup_outcomes
        [of "\<lambda>q. Inr [[(''url'', ''https://example.com/hiit'')], [(''content'', ''no url'')]]"
          "''HIIT Cardio''" _ "[[(''url'', ''https://example.com/hiit'')], [(''content'', ''no url'')]]"]
      n1 n2
    by simp
  have d: "find_youtube_workout_video
       (\<lambda>q. Inr [[(''url'', ''https://example.com/hiit'')],
                  [(''url'', ''https://youtu.be/abc'')],
                  [(''title'', ''Later''), (''url'', ''https://www.youtube.com/watch?v=2'')]])
       ''HIIT Cardio''
     = ''[HIIT Cardio Workout Video](https://youtu.be/abc)''"
    using video_lookup_outcomes
        [of "\<lambda>q. Inr [[(''url'', ''https://example.com/hiit'')],
                  [(''url'', ''https://youtu.be/abc'')],
                  [(''title'', ''Later''), (''url'', ''https://www.youtube.com/watch?v=2'')]]"
          "''HIIT Cardio''" _ _ "[[(''url'', ''https://example.com/hiit'')]]"
          "[(''url'', ''https://youtu.be/abc'')]"
          "[[(''title'', ''Later''), (''url'', ''https://www.youtube.com/watch?v=2'')]]"]
      n1 y t
    by simp
  from a b c d show ?thesis by blast
qed

text \<open>
  Claim C7: \<^verbatim>\<open>get_calories_for_food\<close> returns the \<^verbatim>\<open>content\<close> field of the first result as
  it is when the field is present and not empty, whatever the later results hold; it
  returns one sentinel string for an empty result list and another when the first result
  has no \<^verbatim>\<open>content\<close> or an empty one. An exception of the search becomes the string
  \<^verbatim>\<open>Could not find calorie information due to an error: ...\<close>. These cases cover every
  answer of the search service, so the tool always returns a string.
\<close>

theorem calorie_lookup_outcomes:
  "(tavily_search (calorie_query food_item) = Inl e \<longrightarrow>
      get_calories_for_food tavily_search food_item
        = ''Could not find calorie information due to an error: '' @ exn_str e)
   \<and> (tavily_search (calorie_query food_item) = Inr [] \<longrightarrow>
      get_calories_for_food tavily_search food_item = ''Could not find calorie information.'')
   \<and> (tavily_search (calorie_query food_item) = Inr (first # rest) \<longrightarrow>
      map_of first ''content'' = Some content \<longrightarrow> content \<noteq> [] \<longrightarrow>
      get_calories_for_food tavily_search food_item = content)
   \<and> (tavily_search (calorie_query food_item) = Inr (first # rest) \<longrightarrow>
      map_of first ''content'' = None \<or> map_of first ''content'' = Some [] \<longrightarrow>
      get_calories_for_food tavily_search food_item
        = ''Could not find calorie information in the search results.'')"
  by (auto simp add: get_calories_for_food_def get_calories_for_food_try_def)

theorem calorie_lookup_outcomes_witness:
  "get_calories_for_food (\<lambda>q. Inl (Exception ''401 Unauthorized'')) ''apple''
     = ''Could not find calorie information due to an error: 401 Unauthorized''
   \<and> get_calories_for_food (\<lambda>q. Inr []) ''apple'' = ''Could not find calorie information.''
   \<and> get_calories_for_food
       (\<lambda>q. Inr [[(''url'', ''https://a.example''), (''content'', ''An apple has 95 kcal.'')],
                  [(''content'', ''other'')]]) ''apple''
     = ''An apple has 95 kcal.''
   \<and> get_calories_for_food
       (\<lambda>q. Inr [[(''url'', ''https://a.example'')], [(''content'', ''other'')]]) ''apple''
     = ''Could not find calorie information in the search results.''"
proof -
  have a: "get_calories_for_food (\<lambda>q. Inl (Exception ''401 Unauthorized'')) ''apple''
     = ''Could not find calorie information due to an error: 401 Unauthorized''"
    using calorie_lookup_outcomes [of "\<lambda>q. Inl (Exception ''401 Unauthorized'')" "''apple''"
        "Exception ''401 Unauthorized''"]
    by simp
  have b: "get_calories_for_food (\<lambda>q. Inr []) ''apple'' = ''Could not find calorie information.''"
    using calorie_lookup_outcomes [of "\<lambda>q. Inr []" "''apple''"] by simp
  have c: "get_calories_for_food
       (\<lambda>q. Inr [[(''url'', ''https://a.example''), (''content'', ''An apple has 95 kcal.'')],
                  [(''content'', ''other'')]]) ''apple''
     = ''An apple has 95 kcal.''"
    using calorie_lookup_outcomes
        [of "\<lambda>q. Inr [[(''url'', ''https://a.example''), (''content'', ''An apple has 95 kcal.'')],
                  [(''content'', ''other'')]]" "''apple''" _
          "[(''url'', ''https://a.example''), (''content'', ''An apple has 95 kcal.'')]"
          "[[(''content'', ''other'')]]" "''An apple has 95 kcal.''"]
    by simp
  have d: "get_calories_for_food
       (\<lambda>q. Inr [[(''url'', ''https://a.example'')], [(''content'', ''other'')]]) ''apple''
     = ''Could not find calorie information in the search results.''"
    using calorie_lookup_outcomes
        [of "\<lambda>q. Inr [[(''url'', ''https://a.example'')], [(''content'', ''other'')]]"
          "''apple''" _ "[(''url'', ''https://a.example'')]" "[[(''content'', ''other'')]]"]
    by simp
  from a b c d show ?thesis by blast
qed

subsection \<open>Leniency on the strings, and the sign of the macros\<close>

text \<open>
  Claim C8: the calories before the goal branch are the BMR times the factor of the table
  (\<^verbatim>\<open>sedentary\<close> 1.2, \<^verbatim>\<open>light\<close> 1.375, \<^verbatim>\<open>moderate\<close> 1.55, \<^verbatim>\<open>active\<close> 1.725) for the
  lowercased activity level, and times 1.55 for every other string. Nothing fails on
  unrecognized strings: a gender that is not \<^verbatim>\<open>male\<close>, an activity level outside the table and
  a goal that is neither \<^verbatim>\<open>weight_loss\<close> nor \<^verbatim>\<open>muscle_gain\<close> give the plan of \<^verbatim>\<open>female\<close>,
  \<^verbatim>\<open>moderate\<close>, \<^verbatim>\<open>maintenance\<close>.
\<close>

theorem activity_factor_and_leniency:
  "activity_calories w h a g act
     = bmr w h a g
        * (if lower act = ''sedentary'' then 6 / 5
           else if lower act = ''light'' then 11 / 8
           else if lower act = ''moderate'' then 31 / 20
           else if lower act = ''active'' then 69 / 40
           else 31 / 20)
   \<and> daily_calories (calculate_diet_plan ''maintenance'' w h a g act)
       = py_round (activity_calories w h a g act)
   \<and> (lower g \<noteq> ''male'' \<longrightarrow>
       lower act \<notin> {''sedentary'', ''light'', ''moderate'', ''active''} \<longrightarrow>
       goal \<notin> {''weight_loss'', ''muscle_gain''} \<longrightarrow>
       calculate_diet_plan goal w h a g act
         = calculate_diet_plan ''maintenance'' w h a ''female'' ''moderate'')"
proof (intro conjI impI)
  show "activity_calories w h a g act
     = bmr w h a g
        * (if lower act = ''sedentary'' then 6 / 5
           else if lower act = ''light'' then 11 / 8
           else if lower act = ''moderate'' then 31 / 20
           else if lower act = ''active'' then 69 / 40
           else 31 / 20)"
    unfolding activity_calories_def activity_factor by (rule refl)
next
  show "daily_calories (calculate_diet_plan ''maintenance'' w h a g act)
       = py_round (activity_calories w h a g act)"
    by (rule maintenance_calories)
next
  assume g: "lower g \<noteq> ''male''"
    and act: "lower act \<notin> {''sedentary'', ''light'', ''moderate'', ''active''}"
    and goal: "goal \<notin> {''weight_loss'', ''muscle_gain''}"
  have f: "lower ''female'' \<noteq> ''male''" by code_simp
  have m: "lower ''moderate'' = ''moderate''" by code_simp
  have b: "bmr w h a g = bmr w h a ''female''"
    using g f by (simp add: bmr_def)
  have d: "dict_get activity_multipliers (lower act) (31 / 20) = 31 / 20"
    using act by (simp add: activity_factor)
  have d': "dict_get activity_multipliers (lower ''moderate'') (31 / 20) = 31 / 20"
    unfolding m by (simp add: dict_get_def activity_multipliers_def)
  have "activity_calories w h a g act = activity_calories w h a ''female'' ''moderate''"
    unfolding activity_calories_def b d d' by (rule refl)
  moreover from goal have "goal \<noteq> ''weight_loss''" "goal \<noteq> ''muscle_gain''" by simp_all
  then have "goal_branch goal w = goal_branch ''maintenance'' w"
    by (rule goal_branch_unrecognized)
  ultimately show "calculate_diet_plan goal w h a g act
         = calculate_diet_plan ''maintenance'' w h a ''female'' ''moderate''"
    by (rule plan_by_goal_branch [rotated])
qed

theorem activity_factor_and_leniency_witness:
  "calculate_diet_plan ''bulk'' 70 175 30 ''robot'' ''extreme''
     = calculate_diet_plan ''maintenance'' 70 175 30 ''female'' ''moderate''
   \<and> daily_calories (calculate_diet_plan ''bulk'' 70 175 30 ''robot'' ''extreme'') = 2298
   \<and> activity_calories 70 175 30 ''male'' ''Sedentary'' = 6595 / 4 * (6 / 5)
   \<and> activity_calories 70 175 30 ''male'' ''very active'' = 6595 / 4 * (31 / 20)"
proof -
  have h: "lower ''robot'' \<noteq> ''male''"
    "lower ''extreme'' \<notin> {''sedentary'', ''light'', ''moderate'', ''active''}"
    "''bulk'' \<notin> {''weight_loss'', ''muscle_gain''}"
    by code_simp+
  have v: "daily_calories (calculate_diet_plan ''maintenance'' 70 175 30 ''female'' ''moderate'') = 2298"
    by code_simp
  have l: "lower ''Sedentary'' = ''sedentary''" "lower ''very active'' = ''very active''"
    by code_simp+
  have b: "bmr 70 175 30 ''male'' = 6595 / 4" by code_simp
  have 1: "calculate_diet_plan ''bulk'' 70 175 30 ''robot'' ''extreme''
     = calculate_diet_plan ''maintenance'' 70 175 30 ''female'' ''moderate''"
    using h activity_factor_and_leniency [of 70 175 30 "''robot''" "''extreme''" "''bulk''"] by blast
  have 2: "activity_calories 70 175 30 ''male'' ''Sedentary'' = 6595 / 4 * (6 / 5)"
    using activity_factor_and_leniency [of 70 175 30 "''male''" "''Sedentary''" "''bulk''"] unfolding l b by simp
  have 3: "activity_calories 70 175 30 ''male'' ''very active'' = 6595 / 4 * (31 / 20)"
    using activity_factor_and_leniency [of 70 175 30 "''male''" "''very active''" "''bulk''"] unfolding l b by simp
  from 1 2 3 v show ?thesis by simp
qed

text \<open>
  Claim C9, as the specification states it: for every input the rounded macros are not
  negative. For 30 kg, 100 cm, 90 years, \<^verbatim>\<open>female\<close>, \<^verbatim>\<open>sedentary\<close>, \<^verbatim>\<open>weight_loss\<close> the BMR is
  314, the calories are \<open>376.8 - 400 = -23.2\<close>, and \<^verbatim>\<open>fat_g\<close> is \<open>round(-0.644...) = -1\<close>.
\<close>

theorem macros_negative_fat_counterexample:
  "map_of (macros (calculate_diet_plan ''weight_loss'' 30 100 90 ''female'' ''sedentary'')) ''fat_g''
     = Some (- 1)
   \<and> \<not> (\<forall>(k, v) \<in> set (macros (calculate_diet_plan ''weight_loss'' 30 100 90 ''female'' ''sedentary'')). 0 \<le> v)"
proof -
  have m: "macros (calculate_diet_plan ''weight_loss'' 30 100 90 ''female'' ''sedentary'')
    = [(''protein_g'', 54), (''carbs_g'', 150), (''fat_g'', - 1)]"
    by code_simp
  show ?thesis unfolding m by simp
qed

text \<open>
  Claim C9, amended: for every input with \<^verbatim>\<open>weight_kg\<close> at least 0 whose goal-adjusted
  calories (the local \<^verbatim>\<open>calories\<close> at line 43) are at least 0, the returned macros are the
  three entries \<^verbatim>\<open>protein_g\<close>, \<^verbatim>\<open>carbs_g\<close>, \<^verbatim>\<open>fat_g\<close>, and none is negative.
\<close>

theorem macros_nonneg:
  assumes "0 \<le> w" and "0 \<le> adjusted_calories goal w h a g act"
  shows "map fst (macros (calculate_diet_plan goal w h a g act)) = [''protein_g'', ''carbs_g'', ''fat_g'']
    \<and> (\<forall>(k, v) \<in> set (macros (calculate_diet_plan goal w h a g act)). 0 \<le> v)"
proof -
  let ?c = "adjusted_calories goal w h a g act"
  have p: "0 \<le> py_round (9 / 5 * w)" "0 \<le> py_round (2 * w)"
    using assms(1) by (simp_all add: py_round_nonneg)
  have c: "0 \<le> py_round ((?c * (1 / 4)) / 9)" "0 \<le> py_round ((?c * (3 / 10)) / 9)"
    "0 \<le> py_round ((?c * (2 / 5)) / 4)" "0 \<le> py_round ((?c * (9 / 20)) / 4)"
    using assms(2) by (simp_all add: py_round_nonneg)
  have k: "0 \<le> py_round 150" by (simp add: py_round_nonneg)
  show ?thesis
    unfolding macros_rounded unrounded_macros_cases
    using p c k by (auto simp del: times_divide_eq_left times_divide_eq_right divide_divide_eq_left)
qed

theorem macros_nonneg_witness:
  "(0::rat) \<le> 85 \<and> 0 \<le> adjusted_calories ''weight_loss'' 85 180 32 ''male'' ''light''
   \<and> map fst (macros (calculate_diet_plan ''weight_loss'' 85 180 32 ''male'' ''light''))
       = [''protein_g'', ''carbs_g'', ''fat_g'']
   \<and> macros (calculate_diet_plan ''weight_loss'' 85 180 32 ''male'' ''light'')
       = [(''protein_g'', 153), (''carbs_g'', 150), (''fat_g'', 58)]
   \<and> (0::int) \<le> 153 \<and> (0::int) \<le> 150 \<and> (0::int) \<le> 58"
proof -
  have w: "(0::rat) \<le> 85" by simp
  have c: "0 \<le> adjusted_calories ''weight_loss'' 85 180 32 ''male'' ''light''" by code_simp
  have m: "macros (calculate_diet_plan ''weight_loss'' 85 180 32 ''male'' ''light'')
       = [(''protein_g'', 153), (''carbs_g'', 150), (''fat_g'', 58)]" by code_simp
  show ?thesis using w c m macros_nonneg [OF w c] by simp
qed

subsection \<open>Case sensitivity\<close>

text \<open>
  Claim C10: \<^verbatim>\<open>gender\<close> and \<^verbatim>\<open>activity_level\<close> are lowercased before they are compared, so
  the plan does not depend on their case; \<^verbatim>\<open>goal\<close> is compared as it is. The goal
  \<^verbatim>\<open>Muscle_Gain\<close> gives the plan of \<^verbatim>\<open>maintenance\<close> (no calorie offset, protein
  \<open>1.8 * weight_kg\<close>) and the general schedule, although the same string lowercased is
  \<^verbatim>\<open>muscle_gain\<close> and selects the other branch of both tools.
\<close>

theorem goal_case_sensitive:
  "lower ''Muscle_Gain'' = ''muscle_gain''
   \<and> calculate_diet_plan ''Muscle_Gain'' w h a g act = calculate_diet_plan ''maintenance'' w h a g act
   \<and> daily_calories (calculate_diet_plan ''Muscle_Gain'' w h a g act)
       = py_round (activity_calories w h a g act)
   \<and> map_of (macros (calculate_diet_plan ''Muscle_Gain'' w h a g act)) ''protein_g''
       = Some (py_round (18 / 10 * w))
   \<and> daily_calories (calculate_diet_plan (lower ''Muscle_Gain'') w h a g act)
       = py_round (activity_calories w h a g act + 400)
   \<and> map_of (macros (calculate_diet_plan (lower ''Muscle_Gain'') w h a g act)) ''protein_g''
       = Some (py_round (2 * w))
   \<and> generate_workout_schedule ''Muscle_Gain'' e = general_schedule
   \<and> generate_workout_schedule (lower ''Muscle_Gain'') e = muscle_gain_schedule
   \<and> general_schedule \<noteq> muscle_gain_schedule
   \<and> calculate_diet_plan goal w h a (lower g) (lower act) = calculate_diet_plan goal w h a g act
   \<and> calculate_diet_plan goal w h a ''MALE'' ''Active'' = calculate_diet_plan goal w h a ''male'' ''active''"
proof -
  have l: "lower ''Muscle_Gain'' = ''muscle_gain''" by code_simp
  have l2: "lower ''MALE'' = lower ''male''" "lower ''Active'' = lower ''active''" by code_simp+
  have p: "calculate_diet_plan ''Muscle_Gain'' w h a g act = calculate_diet_plan ''maintenance'' w h a g act"
  proof (rule plan_by_goal_branch)
    show "goal_branch ''Muscle_Gain'' w = goal_branch ''maintenance'' w"
      by (rule goal_branch_unrecognized) simp_all
  qed (rule refl)
  have ci: "activity_calories w h a g' act' = activity_calories w h a g'' act''"
    if "lower g' = lower g''" "lower act' = lower act''" for g' g'' act' act''
    using that by (simp add: activity_calories_def bmr_def)
  have q: "calculate_diet_plan goal w h a (lower g) (lower act) = calculate_diet_plan goal w h a g act"
    by (rule plan_by_goal_branch [OF refl ci]) (simp_all add: lower_idem)
  have q2: "calculate_diet_plan goal w h a ''MALE'' ''Active'' = calculate_diet_plan goal w h a ''male'' ''active''"
    by (rule plan_by_goal_branch [OF refl ci]) (simp_all add: l2)
  have s: "general_schedule \<noteq> muscle_gain_schedule"
    by (simp add: general_schedule_def muscle_gain_schedule_def)
  have c1: "daily_calories (calculate_diet_plan ''maintenance'' w h a g act)
       = py_round (activity_calories w h a g act)"
    by (rule maintenance_calories)
  have c2: "daily_calories (calculate_diet_plan ''muscle_gain'' w h a g act)
       = py_round (activity_calories w h a g act + 400)"
    by (rule muscle_gain_calories)
  have m1: "map_of (macros (calculate_diet_plan ''maintenance'' w h a g act)) ''protein_g''
       = Some (py_round (18 / 10 * w))"
    by (simp add: macros_rounded unrounded_macros_cases)
  have m2: "map_of (macros (calculate_diet_plan ''muscle_gain'' w h a g act)) ''protein_g''
       = Some (py_round (2 * w))"
    by (simp add: macros_rounded unrounded_macros_cases)
  have g1: "generate_workout_schedule ''Muscle_Gain'' e = general_schedule"
    by (simp add: generate_workout_schedule_def)
  have g2: "generate_workout_schedule ''muscle_gain'' e = muscle_gain_schedule"
    by (simp add: generate_workout_schedule_def)
  show ?thesis
    unfolding p l
    using c1 c2 m1 m2 g1 g2 s q q2 by blast
qed

end
